theory Spec2Isabelle
  imports Complex_Main
begin

section \<open>Values of the Go program\<close>

subsection \<open>float64\<close>

text \<open>
  A \<open>float64\<close> is a finite number, an infinity or NaN. A finite value is represented by
  the real number it denotes; the rounding of a finite sum is not modelled (the contract
  only compares scores with the constants 0, 40 and 100, and rounding is monotone).
  The three special values are kept apart because they change the control flow: every
  comparison with NaN is false, and \<open>json.Marshal\<close> refuses NaN and the infinities.
\<close>

datatype float64 = Fin real | PosInf | NegInf | NaN

fun f64_add :: "float64 \<Rightarrow> float64 \<Rightarrow> float64" where
  "f64_add (Fin a) (Fin b) = Fin (a + b)"
| "f64_add (Fin a) PosInf = PosInf"
| "f64_add (Fin a) NegInf = NegInf"
| "f64_add PosInf (Fin b) = PosInf"
| "f64_add PosInf PosInf = PosInf"
| "f64_add PosInf NegInf = NaN"
| "f64_add NegInf (Fin b) = NegInf"
| "f64_add NegInf NegInf = NegInf"
| "f64_add NegInf PosInf = NaN"
| "f64_add NaN y = NaN"
| "f64_add x NaN = NaN"

text \<open>\<open>f64_lt x y\<close> is Go's \<open>x < y\<close>; Go's \<open>x > y\<close> is \<open>f64_lt y x\<close>.\<close>

fun f64_lt :: "float64 \<Rightarrow> float64 \<Rightarrow> bool" where
  "f64_lt (Fin a) (Fin b) = (a < b)"
| "f64_lt (Fin a) PosInf = True"
| "f64_lt (Fin a) NegInf = False"
| "f64_lt PosInf y = False"
| "f64_lt NegInf (Fin b) = True"
| "f64_lt NegInf PosInf = True"
| "f64_lt NegInf NegInf = False"
| "f64_lt NaN y = False"
| "f64_lt x NaN = False"

text \<open>Go's \<open>x >= y\<close> and \<open>x <= y\<close>; both are false when an operand is NaN.\<close>

definition f64_le :: "float64 \<Rightarrow> float64 \<Rightarrow> bool" where
  "f64_le x y = (x \<noteq> NaN \<and> y \<noteq> NaN \<and> \<not> f64_lt y x)"

definition is_finite :: "float64 \<Rightarrow> bool" where
  "is_finite x = (case x of Fin a \<Rightarrow> True | _ \<Rightarrow> False)"

subsection \<open>Errors\<close>

text \<open>
  The values of Go's \<open>error\<close> interface that occur: an error made by \<open>fmt.Errorf\<close>
  (its formatted message), an error returned by the host's stub, and the errors of
  \<open>encoding/json\<close>. \<open>nil\<close> is \<open>None\<close> of \<open>error option\<close>.
\<close>

datatype error =
    Errorf string
  | StubError string
  | SyntaxError
  | UnmarshalTypeError string
  | UnsupportedValueError

subsection \<open>The structs\<close>

record EnergyAsset =
  TokenID :: string
  BuyerAddress :: string
  SellerAddress :: string
  EnergyAmount :: float64
  TransactionPrice :: float64
  Timestamp :: string
  BuyerDeposit :: float64
  SellerDeposit :: float64
  TransactionState :: string
  BuyerSignature :: string
  SellerSignature :: string

record TokenAccount =
  AccountID :: string
  Balance :: float64

record Reputation =
  ParticipantAddress :: string
  Score :: float64

definition ReputationPenaltyThreshold :: float64 where
  "ReputationPenaltyThreshold = Fin 40"

text \<open>The zero values that \<open>var asset EnergyAsset\<close> and \<open>var rep Reputation\<close> declare.\<close>

definition zero_EnergyAsset :: EnergyAsset where
  "zero_EnergyAsset = \<lparr>TokenID = [], BuyerAddress = [], SellerAddress = [],
     EnergyAmount = Fin 0, TransactionPrice = Fin 0, Timestamp = [],
     BuyerDeposit = Fin 0, SellerDeposit = Fin 0, TransactionState = [],
     BuyerSignature = [], SellerSignature = []\<rparr>"

definition zero_Reputation :: Reputation where
  "zero_Reputation = \<lparr>ParticipantAddress = [], Score = Fin 0\<rparr>"

section \<open>encoding/json on the three structs\<close>

text \<open>
  The contract never looks at stored bytes except through \<open>json.Unmarshal\<close>, so a byte
  string is represented by what it spells: the JSON text it is (\<open>JSON v\<close>), or bytes
  that are not a JSON text (\<open>NotJSON\<close>). A nil slice is \<open>None\<close> of \<open>bytes option\<close>.
  A JSON number is the real it denotes (a literal too large for a float64 is not
  modelled), a JSON string the Go string that the decoder reads from it.
\<close>

datatype jval =
    JNull
  | JBool bool
  | JNum real
  | JStr string
  | JArr "jval list"
  | JObj "(string \<times> jval) list"

datatype bytes = JSON jval | NotJSON string

subsection \<open>Strings that are not valid UTF-8\<close>

text \<open>
  A Go string is any sequence of bytes. \<open>json.Marshal\<close> writes a string as UTF-8: it
  decodes the string rune by rune (\<open>utf8.DecodeRuneInString\<close>) and writes the escape of
  U+FFFD, the replacement character, for every byte at which no well-formed encoding
  starts. \<open>rune_size s\<close> is the number of bytes of the well-formed encoding at the head
  of \<open>s\<close>, and 0 when there is none: one byte below 0x80; a lead byte 0xC2..0xDF, 0xE0..0xEF
  or 0xF0..0xF4 with one, two or three continuation bytes 0x80..0xBF, the first of which is
  further restricted after 0xE0 (from 0xA0), 0xED (to 0x9F), 0xF0 (from 0x90) and 0xF4 (to
  0x8F).
\<close>

definition between :: "nat \<Rightarrow> nat \<Rightarrow> char \<Rightarrow> bool" where
  "between lo hi c = (lo \<le> of_char c \<and> of_char c \<le> hi)"

definition second_lo :: "nat \<Rightarrow> nat" where
  "second_lo b = (if b = 224 then 160 else if b = 240 then 144 else 128)"

definition second_hi :: "nat \<Rightarrow> nat" where
  "second_hi b = (if b = 237 then 159 else if b = 244 then 143 else 191)"

fun rune_size :: "string \<Rightarrow> nat" where
  "rune_size [] = 0"
| "rune_size (c # cs) =
     (let b = of_char c :: nat in
      if b < 128 then 1
      else if 194 \<le> b \<and> b \<le> 223 then
        (case cs of
           c1 # rest \<Rightarrow> if between 128 191 c1 then 2 else 0
         | _ \<Rightarrow> 0)
      else if 224 \<le> b \<and> b \<le> 239 then
        (case cs of
           c1 # c2 # rest \<Rightarrow>
             if between (second_lo b) (second_hi b) c1 \<and> between 128 191 c2 then 3 else 0
         | _ \<Rightarrow> 0)
      else if 240 \<le> b \<and> b \<le> 244 then
        (case cs of
           c1 # c2 # c3 # rest \<Rightarrow>
             if between (second_lo b) (second_hi b) c1 \<and> between 128 191 c2
                \<and> between 128 191 c3 then 4 else 0
         | _ \<Rightarrow> 0)
      else 0)"

text \<open>The UTF-8 encoding of U+FFFD.\<close>

definition RuneError :: string where
  "RuneError = [CHR 0xEF, CHR 0xBF, CHR 0xBD]"

text \<open>
  \<open>coerce_from k s\<close> copies the \<open>k\<close> bytes that remain of the encoding being copied,
  then goes on rune by rune, writing U+FFFD for a byte that starts no encoding.
  \<open>valid_from\<close> is \<open>utf8.ValidString\<close> in the same way.
\<close>

fun coerce_from :: "nat \<Rightarrow> string \<Rightarrow> string" where
  "coerce_from k [] = []"
| "coerce_from (Suc k) (c # cs) = c # coerce_from k cs"
| "coerce_from 0 (c # cs) =
     (case rune_size (c # cs) of
        0 \<Rightarrow> RuneError @ coerce_from 0 cs
      | Suc n \<Rightarrow> c # coerce_from n cs)"

definition coerce_utf8 :: "string \<Rightarrow> string" where
  "coerce_utf8 s = coerce_from 0 s"

fun valid_from :: "nat \<Rightarrow> string \<Rightarrow> bool" where
  "valid_from k [] = True"
| "valid_from (Suc k) (c # cs) = valid_from k cs"
| "valid_from 0 (c # cs) =
     (case rune_size (c # cs) of
        0 \<Rightarrow> False
      | Suc n \<Rightarrow> valid_from n cs)"

definition valid_utf8 :: "string \<Rightarrow> bool" where
  "valid_utf8 s = valid_from 0 s"

subsection \<open>Marshal\<close>

text \<open>
  \<open>json.Marshal\<close> of a struct writes the members in the order of the fields, under the
  names of the \<open>json\<close> tags, every string coerced to UTF-8, leaves out an \<open>omitempty\<close>
  field that is empty, and fails with an \<open>UnsupportedValueError\<close> (returning nil bytes)
  on a float that is NaN or infinite.
\<close>

text \<open>The JSON number of a finite float; \<open>Marshal\<close> applies it to finite floats only.\<close>

fun number :: "float64 \<Rightarrow> jval" where
  "number (Fin a) = JNum a"
| "number x = JNull"

definition omitempty :: "string \<Rightarrow> string \<Rightarrow> (string \<times> jval) list" where
  "omitempty name s = (if s = [] then [] else [(name, JStr (coerce_utf8 s))])"

definition Marshal_EnergyAsset :: "EnergyAsset \<Rightarrow> bytes option \<times> error option" where
  "Marshal_EnergyAsset a =
     (if is_finite (EnergyAmount a) \<and> is_finite (TransactionPrice a) \<and>
         is_finite (BuyerDeposit a) \<and> is_finite (SellerDeposit a)
      then (Some (JSON (JObj (
              [(''tokenID'', JStr (coerce_utf8 (TokenID a))),
               (''buyerAddress'', JStr (coerce_utf8 (BuyerAddress a))),
               (''sellerAddress'', JStr (coerce_utf8 (SellerAddress a))),
               (''energyAmount'', number (EnergyAmount a)),
               (''transactionPrice'', number (TransactionPrice a)),
               (''timestamp'', JStr (coerce_utf8 (Timestamp a))),
               (''buyerDeposit'', number (BuyerDeposit a)),
               (''sellerDeposit'', number (SellerDeposit a)),
               (''transactionState'', JStr (coerce_utf8 (TransactionState a)))]
              @ omitempty ''buyerSignature'' (BuyerSignature a)
              @ omitempty ''sellerSignature'' (SellerSignature a)))), None)
      else (None, Some UnsupportedValueError))"

definition Marshal_Reputation :: "Reputation \<Rightarrow> bytes option \<times> error option" where
  "Marshal_Reputation r =
     (if is_finite (Score r)
      then (Some (JSON (JObj
              [(''participantAddress'', JStr (coerce_utf8 (ParticipantAddress r))),
               (''score'', number (Score r))])), None)
      else (None, Some UnsupportedValueError))"

subsection \<open>Unmarshal\<close>

text \<open>
  \<open>json.Unmarshal\<close> into a struct: bytes that are not JSON give a \<open>SyntaxError\<close> and
  leave the struct untouched; \<open>null\<close> changes nothing; an object is read member by
  member in its order, a member whose name equals a field's tag up to the case of its
  letters being stored in that field, any other member skipped; \<open>null\<close> for a field
  changes nothing; a value of the wrong JSON type leaves the field as it is, and the
  first such \<open>UnmarshalTypeError\<close> is returned after the whole object has been read;
  any other top-level value is an \<open>UnmarshalTypeError\<close>.
\<close>

definition to_lower :: "char \<Rightarrow> char" where
  "to_lower c = (let n = of_char c :: nat in if 65 \<le> n \<and> n \<le> 90 then char_of (n + 32) else c)"

definition fold_name :: "string \<Rightarrow> string" where
  "fold_name s = map to_lower s"

datatype 'a decoded = Keep | Store 'a | Mismatch error

fun decode_string :: "string \<Rightarrow> jval \<Rightarrow> string decoded" where
  "decode_string f (JStr s) = Store s"
| "decode_string f JNull = Keep"
| "decode_string f v = Mismatch (UnmarshalTypeError f)"

fun decode_float64 :: "string \<Rightarrow> jval \<Rightarrow> float64 decoded" where
  "decode_float64 f (JNum x) = Store (Fin x)"
| "decode_float64 f JNull = Keep"
| "decode_float64 f v = Mismatch (UnmarshalTypeError f)"

fun saveError :: "error option \<Rightarrow> error \<Rightarrow> error option" where
  "saveError None e = Some e"
| "saveError (Some e0) e = Some e0"

definition assign :: "'a decoded \<Rightarrow> ('a \<Rightarrow> 'r \<Rightarrow> 'r) \<Rightarrow> 'r \<times> error option \<Rightarrow> 'r \<times> error option" where
  "assign d upd st =
     (case d of
        Keep \<Rightarrow> st
      | Store x \<Rightarrow> (upd x (fst st), snd st)
      | Mismatch e \<Rightarrow> (fst st, saveError (snd st) e))"

definition member_EnergyAsset ::
  "EnergyAsset \<times> error option \<Rightarrow> string \<times> jval \<Rightarrow> EnergyAsset \<times> error option" where
  "member_EnergyAsset st m =
     (let k = fold_name (fst m); v = snd m in
      if k = ''tokenid'' then
        assign (decode_string ''tokenID'' v) (\<lambda>x a. a\<lparr>TokenID := x\<rparr>) st
      else if k = ''buyeraddress'' then
        assign (decode_string ''buyerAddress'' v) (\<lambda>x a. a\<lparr>BuyerAddress := x\<rparr>) st
      else if k = ''selleraddress'' then
        assign (decode_string ''sellerAddress'' v) (\<lambda>x a. a\<lparr>SellerAddress := x\<rparr>) st
      else if k = ''energyamount'' then
        assign (decode_float64 ''energyAmount'' v) (\<lambda>x a. a\<lparr>EnergyAmount := x\<rparr>) st
      else if k = ''transactionprice'' then
        assign (decode_float64 ''transactionPrice'' v) (\<lambda>x a. a\<lparr>TransactionPrice := x\<rparr>) st
      else if k = ''timestamp'' then
        assign (decode_string ''timestamp'' v) (\<lambda>x a. a\<lparr>Timestamp := x\<rparr>) st
      else if k = ''buyerdeposit'' then
        assign (decode_float64 ''buyerDeposit'' v) (\<lambda>x a. a\<lparr>BuyerDeposit := x\<rparr>) st
      else if k = ''sellerdeposit'' then
        assign (decode_float64 ''sellerDeposit'' v) (\<lambda>x a. a\<lparr>SellerDeposit := x\<rparr>) st
      else if k = ''transactionstate'' then
        assign (decode_string ''transactionState'' v) (\<lambda>x a. a\<lparr>TransactionState := x\<rparr>) st
      else if k = ''buyersignature'' then
        assign (decode_string ''buyerSignature'' v) (\<lambda>x a. a\<lparr>BuyerSignature := x\<rparr>) st
      else if k = ''sellersignature'' then
        assign (decode_string ''sellerSignature'' v) (\<lambda>x a. a\<lparr>SellerSignature := x\<rparr>) st
      else st)"

definition member_Reputation ::
  "Reputation \<times> error option \<Rightarrow> string \<times> jval \<Rightarrow> Reputation \<times> error option" where
  "member_Reputation st m =
     (let k = fold_name (fst m); v = snd m in
      if k = ''participantaddress'' then
        assign (decode_string ''participantAddress'' v) (\<lambda>x r. r\<lparr>ParticipantAddress := x\<rparr>) st
      else if k = ''score'' then
        assign (decode_float64 ''score'' v) (\<lambda>x r. r\<lparr>Score := x\<rparr>) st
      else st)"

fun Unmarshal_EnergyAsset :: "bytes \<Rightarrow> EnergyAsset \<times> error option" where
  "Unmarshal_EnergyAsset (NotJSON raw) = (zero_EnergyAsset, Some SyntaxError)"
| "Unmarshal_EnergyAsset (JSON JNull) = (zero_EnergyAsset, None)"
| "Unmarshal_EnergyAsset (JSON (JObj ms)) = foldl member_EnergyAsset (zero_EnergyAsset, None) ms"
| "Unmarshal_EnergyAsset (JSON v) = (zero_EnergyAsset, Some (UnmarshalTypeError ''EnergyAsset''))"

fun Unmarshal_Reputation :: "bytes \<Rightarrow> Reputation \<times> error option" where
  "Unmarshal_Reputation (NotJSON raw) = (zero_Reputation, Some SyntaxError)"
| "Unmarshal_Reputation (JSON JNull) = (zero_Reputation, None)"
| "Unmarshal_Reputation (JSON (JObj ms)) = foldl member_Reputation (zero_Reputation, None) ms"
| "Unmarshal_Reputation (JSON v) = (zero_Reputation, Some (UnmarshalTypeError ''Reputation''))"

section \<open>The host's stub\<close>

text \<open>
  \<open>ctx.GetStub()\<close> is the key-value store of the host. Its state is the stored bytes,
  the keys on which the host's read or write currently fails (with the failure's
  message), and a log of the calls of \<open>PutState\<close> made so far. \<open>GetState\<close> returns nil
  bytes with the host's error when the read fails, and the stored bytes (nil when the key
  holds none) otherwise. \<open>PutState\<close> returns the host's error and leaves the stored
  bytes alone when the write fails, and otherwise makes the key hold the given bytes
  (none, when they are nil: the host takes a write of no bytes as the deletion of the
  key).
\<close>

record stub =
  state :: "string \<rightharpoonup> bytes"
  get_fault :: "string \<Rightarrow> string option"
  put_fault :: "string \<Rightarrow> string option"
  put_log :: "(string \<times> bytes option) list"

definition GetState :: "stub \<Rightarrow> string \<Rightarrow> (bytes option \<times> error option) \<times> stub" where
  "GetState ctx key =
     (case get_fault ctx key of
        Some msg \<Rightarrow> ((None, Some (StubError msg)), ctx)
      | None \<Rightarrow> ((state ctx key, None), ctx))"

definition PutState :: "stub \<Rightarrow> string \<Rightarrow> bytes option \<Rightarrow> error option \<times> stub" where
  "PutState ctx key val =
     (let ctx1 = ctx\<lparr>put_log := put_log ctx @ [(key, val)]\<rparr> in
      case put_fault ctx key of
        Some msg \<Rightarrow> (Some (StubError msg), ctx1)
      | None \<Rightarrow> (None, ctx1\<lparr>state := (state ctx)(key := val)\<rparr>))"

section \<open>The contract\<close>

text \<open>
  Every method takes the transaction context and returns its Go results with the
  context after the call. A returned pointer that may be nil is an \<open>option\<close>.
\<close>

definition ReadEnergyAsset :: "stub \<Rightarrow> string \<Rightarrow> (EnergyAsset option \<times> error option) \<times> stub" where
  "ReadEnergyAsset ctx tokenID =
     (case GetState ctx tokenID of
        ((Some assetJSON, None), ctx1) \<Rightarrow>
          (case Unmarshal_EnergyAsset assetJSON of
             (asset, err) \<Rightarrow> ((Some asset, err), ctx1))
      | (_, ctx1) \<Rightarrow>
          ((None, Some (Errorf (''asset '' @ tokenID @ '' does not exist''))), ctx1))"

definition EnergyAssetExists :: "stub \<Rightarrow> string \<Rightarrow> (bool \<times> error option) \<times> stub" where
  "EnergyAssetExists ctx tokenID =
     (case GetState ctx tokenID of
        ((assetJSON, err), ctx1) \<Rightarrow> ((assetJSON \<noteq> None, err), ctx1))"

definition ReadReputationScore :: "stub \<Rightarrow> string \<Rightarrow> (Reputation \<times> error option) \<times> stub" where
  "ReadReputationScore ctx participantAddress =
     (case GetState ctx participantAddress of
        ((Some repJSON, None), ctx1) \<Rightarrow> (Unmarshal_Reputation repJSON, ctx1)
      | (_, ctx1) \<Rightarrow>
          ((\<lparr>ParticipantAddress = participantAddress, Score = Fin 50\<rparr>, None), ctx1))"

definition CheckReputationPenalty :: "stub \<Rightarrow> string \<Rightarrow> (bool \<times> error option) \<times> stub" where
  "CheckReputationPenalty ctx participantAddress =
     (case ReadReputationScore ctx participantAddress of
        ((reputation, err), ctx1) \<Rightarrow>
          ((f64_lt (Score reputation) ReputationPenaltyThreshold, err), ctx1))"

definition CreateEnergyAsset ::
  "stub \<Rightarrow> string \<Rightarrow> string \<Rightarrow> string \<Rightarrow> float64 \<Rightarrow> float64 \<Rightarrow> string \<Rightarrow> float64 \<Rightarrow> float64
     \<Rightarrow> error option \<times> stub" where
  "CreateEnergyAsset ctx tokenID buyerAddress sellerAddress energyAmount transactionPrice
       timestamp buyerDeposit sellerDeposit =
     (case CheckReputationPenalty ctx buyerAddress of
        ((penalty, err), ctx1) \<Rightarrow>
     if penalty \<or> err \<noteq> None then
       (Some (Errorf (''buyer '' @ buyerAddress @ '' reputation too low'')), ctx1)
     else
     (case CheckReputationPenalty ctx1 sellerAddress of
        ((penalty, err), ctx2) \<Rightarrow>
     if penalty \<or> err \<noteq> None then
       (Some (Errorf (''seller '' @ sellerAddress @ '' reputation too low'')), ctx2)
     else
     (case EnergyAssetExists ctx2 tokenID of
        ((exists, err), ctx3) \<Rightarrow>
     if exists \<or> err \<noteq> None then
       (Some (Errorf (''asset '' @ tokenID @ '' already exists'')), ctx3)
     else
     (let asset = \<lparr>TokenID = tokenID, BuyerAddress = buyerAddress,
            SellerAddress = sellerAddress, EnergyAmount = energyAmount,
            TransactionPrice = transactionPrice, Timestamp = timestamp,
            BuyerDeposit = buyerDeposit, SellerDeposit = sellerDeposit,
            TransactionState = ''CREATED'', BuyerSignature = [], SellerSignature = []\<rparr>
      in case Marshal_EnergyAsset asset of
           (assetJSON, Some e) \<Rightarrow> (Some e, ctx3)
         | (assetJSON, None) \<Rightarrow> PutState ctx3 tokenID assetJSON))))"

text \<open>
  \<open>UpdateReputationScore\<close> assigns the error of \<open>json.Marshal\<close> and never reads it:
  whatever bytes \<open>Marshal\<close> returned, nil included, go to \<open>PutState\<close>.
\<close>

definition UpdateReputationScore :: "stub \<Rightarrow> string \<Rightarrow> float64 \<Rightarrow> error option \<times> stub" where
  "UpdateReputationScore ctx participantAddress delta =
     (case ReadReputationScore ctx participantAddress of
        ((reputation, Some e), ctx1) \<Rightarrow> (Some e, ctx1)
      | ((reputation, None), ctx1) \<Rightarrow>
          (let s = f64_add (Score reputation) delta;
               s' = (if f64_lt (Fin 100) s then Fin 100
                     else if f64_lt s (Fin 0) then Fin 0
                     else s)
           in case Marshal_Reputation (reputation\<lparr>Score := s'\<rparr>) of
                (repJSON, err) \<Rightarrow> PutState ctx1 participantAddress repJSON))"

section \<open>Auxiliary definitions\<close>

text \<open>The errors that \<open>encoding/json\<close> itself makes when decoding.\<close>

definition is_json_error :: "error \<Rightarrow> bool" where
  "is_json_error e = (case e of SyntaxError \<Rightarrow> True | UnmarshalTypeError f \<Rightarrow> True | _ \<Rightarrow> False)"

text \<open>
  A small ledger on which the theorems below are exercised: four participants with the
  scores 80, 85, 39.9 and 40, the sample asset \<open>energy1\<close> of \<open>InitLedger\<close>, and a key
  holding bytes that are not JSON. \<open>ledger_offline\<close> is the same ledger while the host
  fails every read; \<open>ledger_energy2\<close> is the ledger after the asset \<open>energy2\<close> has been
  created. \<open>energy2_0xFF_json\<close> is what \<open>Marshal\<close> writes for \<open>energy2\<close> when its timestamp
  is the single byte 0xFF, and \<open>ledger_energy2_0xFF\<close> the ledger after that creation.
\<close>

definition reputation_json :: "string \<Rightarrow> real \<Rightarrow> bytes" where
  "reputation_json p x = JSON (JObj [(''participantAddress'', JStr p), (''score'', JNum x)])"

definition energy1_json :: bytes where
  "energy1_json = JSON (JObj
     [(''tokenID'', JStr ''energy1''), (''buyerAddress'', JStr ''buyer1''),
      (''sellerAddress'', JStr ''seller1''), (''energyAmount'', JNum 100),
      (''transactionPrice'', JNum 0.25), (''timestamp'', JStr ''2025-05-03T10:00:00Z''),
      (''buyerDeposit'', JNum 10), (''sellerDeposit'', JNum 10),
      (''transactionState'', JStr ''CREATED''),
      (''buyerSignature'', JStr ''buyer_signature_example''),
      (''sellerSignature'', JStr ''seller_signature_example'')])"

definition ledger :: stub where
  "ledger = \<lparr>state = [''buyer1'' \<mapsto> reputation_json ''buyer1'' 80,
                      ''seller1'' \<mapsto> reputation_json ''seller1'' 85,
                      ''buyer2'' \<mapsto> reputation_json ''buyer2'' 39.9,
                      ''seller2'' \<mapsto> reputation_json ''seller2'' 40,
                      ''energy1'' \<mapsto> energy1_json,
                      ''scrap'' \<mapsto> NotJSON ''tokenID=energy9''],
             get_fault = (\<lambda>key. None), put_fault = (\<lambda>key. None), put_log = []\<rparr>"

definition ledger_offline :: stub where
  "ledger_offline = ledger\<lparr>get_fault := (\<lambda>key. Some ''unreachable'')\<rparr>"

definition energy2_json :: bytes where
  "energy2_json = JSON (JObj
     [(''tokenID'', JStr ''energy2''), (''buyerAddress'', JStr ''buyer1''),
      (''sellerAddress'', JStr ''seller1''), (''energyAmount'', JNum 100),
      (''transactionPrice'', JNum 0.25), (''timestamp'', JStr ''2025-05-04T10:00:00Z''),
      (''buyerDeposit'', JNum 10), (''sellerDeposit'', JNum 10),
      (''transactionState'', JStr ''CREATED'')])"

definition energy2_0xFF_json :: bytes where
  "energy2_0xFF_json = JSON (JObj
     [(''tokenID'', JStr ''energy2''), (''buyerAddress'', JStr ''buyer1''),
      (''sellerAddress'', JStr ''seller1''), (''energyAmount'', JNum 100),
      (''transactionPrice'', JNum 0.25), (''timestamp'', JStr [CHR 0xEF, CHR 0xBF, CHR 0xBD]),
      (''buyerDeposit'', JNum 10), (''sellerDeposit'', JNum 10),
      (''transactionState'', JStr ''CREATED'')])"

definition ledger_energy2_0xFF :: stub where
  "ledger_energy2_0xFF = ledger\<lparr>put_log := [(''energy2'', Some energy2_0xFF_json)],
                                state := (state ledger)(''energy2'' \<mapsto> energy2_0xFF_json)\<rparr>"

definition ledger_energy2 :: stub where
  "ledger_energy2 = ledger\<lparr>put_log := [(''energy2'', Some energy2_json)],
                           state := (state ledger)(''energy2'' \<mapsto> energy2_json)\<rparr>"

section \<open>Facts about the codec\<close>

lemma fold_name_tags:
  "fold_name ''tokenID'' = ''tokenid''"
  "fold_name ''buyerAddress'' = ''buyeraddress''"
  "fold_name ''sellerAddress'' = ''selleraddress''"
  "fold_name ''energyAmount'' = ''energyamount''"
  "fold_name ''transactionPrice'' = ''transactionprice''"
  "fold_name ''timestamp'' = ''timestamp''"
  "fold_name ''buyerDeposit'' = ''buyerdeposit''"
  "fold_name ''sellerDeposit'' = ''sellerdeposit''"
  "fold_name ''transactionState'' = ''transactionstate''"
  "fold_name ''buyerSignature'' = ''buyersignature''"
  "fold_name ''sellerSignature'' = ''sellersignature''"
  "fold_name ''participantAddress'' = ''participantaddress''"
  "fold_name ''score'' = ''score''"
  by code_simp+

lemma is_finite_simps [simp]:
  "is_finite (Fin a)" "\<not> is_finite PosInf" "\<not> is_finite NegInf" "\<not> is_finite NaN"
  by (simp_all add: is_finite_def)

lemma decode_number: "is_finite x \<Longrightarrow> decode_float64 f (number x) = Store x"
  by (cases x) simp_all

text \<open>A string that is valid UTF-8 is written as it is.\<close>

lemma valid_coerce_from: "valid_from k s \<Longrightarrow> coerce_from k s = s"
  by (induction k s rule: coerce_from.induct) (auto split: nat.splits)

lemma valid_coerce: "valid_utf8 s \<Longrightarrow> coerce_utf8 s = s"
  by (simp add: valid_utf8_def coerce_utf8_def valid_coerce_from)

lemma coerce_Nil [simp]: "coerce_utf8 [] = []"
  by (simp add: coerce_utf8_def)

lemma coerce_literals:
  "coerce_utf8 ''CREATED'' = ''CREATED''"
  "coerce_utf8 ''energy2'' = ''energy2''"
  "coerce_utf8 ''buyer1'' = ''buyer1''"
  "coerce_utf8 ''seller1'' = ''seller1''"
  "coerce_utf8 ''2025-05-04T10:00:00Z'' = ''2025-05-04T10:00:00Z''"
  "coerce_utf8 [CHR 0xFF] = [CHR 0xEF, CHR 0xBF, CHR 0xBD]"
  by code_simp+

lemma valid_literals:
  "valid_utf8 ''energy2''"
  "valid_utf8 ''buyer1''"
  "valid_utf8 ''seller1''"
  "valid_utf8 ''2025-05-04T10:00:00Z''"
  by code_simp+

text \<open>
  What \<open>Marshal\<close> writes, \<open>Unmarshal\<close> reads back: the numbers as they are, the strings
  coerced to UTF-8.
\<close>

lemma Unmarshal_Marshal_EnergyAsset:
  assumes "Marshal_EnergyAsset a = (Some b, e)"
  shows "Unmarshal_EnergyAsset b =
           (a\<lparr>TokenID := coerce_utf8 (TokenID a),
              BuyerAddress := coerce_utf8 (BuyerAddress a),
              SellerAddress := coerce_utf8 (SellerAddress a),
              Timestamp := coerce_utf8 (Timestamp a),
              TransactionState := coerce_utf8 (TransactionState a),
              BuyerSignature := coerce_utf8 (BuyerSignature a),
              SellerSignature := coerce_utf8 (SellerSignature a)\<rparr>, None)"
proof -
  from assms have fin: "is_finite (EnergyAmount a)" "is_finite (TransactionPrice a)"
      "is_finite (BuyerDeposit a)" "is_finite (SellerDeposit a)"
    by (auto simp: Marshal_EnergyAsset_def split: if_splits)
  from assms fin show ?thesis
    by (auto simp: Marshal_EnergyAsset_def omitempty_def member_EnergyAsset_def
        fold_name_tags assign_def zero_EnergyAsset_def decode_number)
qed

lemma Unmarshal_Marshal_Reputation:
  assumes "Marshal_Reputation r = (Some b, e)"
  shows "Unmarshal_Reputation b = (r\<lparr>ParticipantAddress := coerce_utf8 (ParticipantAddress r)\<rparr>, None)"
proof -
  from assms have fin: "is_finite (Score r)"
    by (auto simp: Marshal_Reputation_def split: if_splits)
  from assms fin show ?thesis
    by (auto simp: Marshal_Reputation_def member_Reputation_def
        fold_name_tags assign_def zero_Reputation_def decode_number)
qed

text \<open>A decoding error is an error of the decoder, never one made by \<open>fmt.Errorf\<close>.\<close>

lemma assign_error:
  assumes "snd (assign d upd st) = Some e" "\<And>e'. d = Mismatch e' \<Longrightarrow> is_json_error e'"
    "\<And>e'. snd st = Some e' \<Longrightarrow> is_json_error e'"
  shows "is_json_error e"
  using assms by (cases d; cases "snd st") (auto simp: assign_def)

lemma decode_string_error: "decode_string f v = Mismatch e \<Longrightarrow> is_json_error e"
  by (cases v) (auto simp: is_json_error_def)

lemma decode_float64_error: "decode_float64 f v = Mismatch e \<Longrightarrow> is_json_error e"
  by (cases v) (auto simp: is_json_error_def)

lemma member_EnergyAsset_error:
  assumes "snd (member_EnergyAsset st m) = Some e" "\<And>e'. snd st = Some e' \<Longrightarrow> is_json_error e'"
  shows "is_json_error e"
  using assms
  by (auto simp: member_EnergyAsset_def Let_def split: if_splits
      intro: assign_error decode_string_error decode_float64_error)

lemma foldl_member_EnergyAsset_error:
  "snd (foldl member_EnergyAsset st ms) = Some e \<Longrightarrow>
   (\<And>e'. snd st = Some e' \<Longrightarrow> is_json_error e') \<Longrightarrow> is_json_error e"
proof (induction ms arbitrary: st)
  case Nil
  then show ?case by simp
next
  case (Cons m ms)
  show ?case
  proof (rule Cons.IH)
    show "snd (foldl member_EnergyAsset (member_EnergyAsset st m) ms) = Some e"
      using Cons.prems(1) by simp
    show "is_json_error e'" if "snd (member_EnergyAsset st m) = Some e'" for e'
      using that Cons.prems(2) by (rule member_EnergyAsset_error)
  qed
qed

lemma Unmarshal_EnergyAsset_error:
  "snd (Unmarshal_EnergyAsset b) = Some e \<Longrightarrow> is_json_error e"
proof (induction b rule: Unmarshal_EnergyAsset.induct)
  case (3 ms)
  then show ?case by (auto dest: foldl_member_EnergyAsset_error)
qed (auto simp: is_json_error_def)

text \<open>A decoded score is finite: JSON has no literal for NaN or an infinity.\<close>

lemma assign_Score_finite:
  "is_finite (Score (fst st)) \<Longrightarrow>
   is_finite (Score (fst (assign (decode_float64 f v) (\<lambda>x r. r\<lparr>Score := x\<rparr>) st)))"
  by (cases v) (simp_all add: assign_def)

lemma assign_ParticipantAddress_Score:
  "Score (fst (assign d (\<lambda>x r. r\<lparr>ParticipantAddress := x\<rparr>) st)) = Score (fst st)"
  by (cases d) (simp_all add: assign_def)

lemma member_Reputation_finite:
  "is_finite (Score (fst st)) \<Longrightarrow> is_finite (Score (fst (member_Reputation st m)))"
  by (simp add: member_Reputation_def Let_def assign_Score_finite assign_ParticipantAddress_Score)

lemma foldl_member_Reputation_finite:
  "is_finite (Score (fst st)) \<Longrightarrow> is_finite (Score (fst (foldl member_Reputation st ms)))"
  by (induction ms arbitrary: st) (simp_all add: member_Reputation_finite)

lemma Unmarshal_Reputation_finite: "is_finite (Score (fst (Unmarshal_Reputation b)))"
  by (induction b rule: Unmarshal_Reputation.induct)
     (simp_all add: foldl_member_Reputation_finite zero_Reputation_def)

section \<open>Facts about the read-only methods\<close>

lemma GetState_ctx: "snd (GetState ctx key) = ctx"
  by (simp add: GetState_def split: option.split)

lemma ReadReputationScore_ctx: "snd (ReadReputationScore ctx p) = ctx"
  by (simp add: ReadReputationScore_def GetState_def split: option.split prod.split)

lemma ReadReputationScore_finite: "is_finite (Score (fst (fst (ReadReputationScore ctx p))))"
  by (auto simp: ReadReputationScore_def GetState_def Unmarshal_Reputation_finite
      split: option.split)

lemma CheckReputationPenalty_eq:
  "CheckReputationPenalty ctx p =
     ((f64_lt (Score (fst (fst (ReadReputationScore ctx p)))) (Fin 40),
       snd (fst (ReadReputationScore ctx p))), ctx)"
  using ReadReputationScore_ctx [of ctx p]
  by (cases "ReadReputationScore ctx p")
     (auto simp: CheckReputationPenalty_def ReputationPenaltyThreshold_def)

lemma EnergyAssetExists_ctx: "snd (EnergyAssetExists ctx k) = ctx"
  by (simp add: EnergyAssetExists_def GetState_def split: option.split)

section \<open>The sample ledger\<close>

lemma Unmarshal_reputation_json:
  "Unmarshal_Reputation (reputation_json p x) = (\<lparr>ParticipantAddress = p, Score = Fin x\<rparr>, None)"
  by (simp add: reputation_json_def member_Reputation_def fold_name_tags assign_def zero_Reputation_def)

lemma ledger_reads:
  "ReadReputationScore ledger ''buyer1'' = ((\<lparr>ParticipantAddress = ''buyer1'', Score = Fin 80\<rparr>, None), ledger)"
  "ReadReputationScore ledger ''seller1'' = ((\<lparr>ParticipantAddress = ''seller1'', Score = Fin 85\<rparr>, None), ledger)"
  "ReadReputationScore ledger ''buyer2'' = ((\<lparr>ParticipantAddress = ''buyer2'', Score = Fin 39.9\<rparr>, None), ledger)"
  "ReadReputationScore ledger ''seller2'' = ((\<lparr>ParticipantAddress = ''seller2'', Score = Fin 40\<rparr>, None), ledger)"
  by (simp_all add: ReadReputationScore_def GetState_def ledger_def Unmarshal_reputation_json)

section \<open>AssetRegistry: the order of the checks of CreateEnergyAsset\<close>

text \<open>
  Claim C1. \<open>CreateEnergyAsset\<close> checks the buyer first: whenever the buyer's reputation
  score (as \<open>ReadReputationScore\<close> reports it) is below 40, it fails with the error
  "buyer ... reputation too low" and leaves the context as it was, whatever the seller's
  score is and whether or not a record is stored under \<open>tokenID\<close>. The seller is checked
  next, before the uniqueness of \<open>tokenID\<close>: when the buyer passes and the seller's score
  is below 40, it fails with "seller ... reputation too low", again whatever is stored
  under \<open>tokenID\<close>.
\<close>

theorem CreateEnergyAsset_check_order:
  "(f64_lt (Score (fst (fst (ReadReputationScore ctx buyer)))) (Fin 40) \<longrightarrow>
      CreateEnergyAsset ctx tokenID buyer seller amount price ts bdep sdep =
        (Some (Errorf (''buyer '' @ buyer @ '' reputation too low'')), ctx))
   \<and> (fst (CheckReputationPenalty ctx buyer) = (False, None) \<and>
      f64_lt (Score (fst (fst (ReadReputationScore ctx seller)))) (Fin 40) \<longrightarrow>
      CreateEnergyAsset ctx tokenID buyer seller amount price ts bdep sdep =
        (Some (Errorf (''seller '' @ seller @ '' reputation too low'')), ctx))"
  by (simp add: CreateEnergyAsset_def CheckReputationPenalty_eq)

text \<open>
  On the sample ledger: buyer2 (score 39.9) is rejected as a buyer although the seller is
  buyer2 too and \<open>energy1\<close> exists; with buyer1 (score 80) as the buyer, buyer2 is
  rejected as the seller although \<open>energy1\<close> exists.
\<close>

theorem CreateEnergyAsset_check_order_witness:
  "f64_lt (Score (fst (fst (ReadReputationScore ledger ''buyer2'')))) (Fin 40)
   \<and> CreateEnergyAsset ledger ''energy1'' ''buyer2'' ''buyer2'' (Fin 1) (Fin 1) ''t'' (Fin 0) (Fin 0) =
        (Some (Errorf ''buyer buyer2 reputation too low''), ledger)
   \<and> fst (CheckReputationPenalty ledger ''buyer1'') = (False, None)
   \<and> CreateEnergyAsset ledger ''energy1'' ''buyer1'' ''buyer2'' (Fin 1) (Fin 1) ''t'' (Fin 0) (Fin 0) =
        (Some (Errorf ''seller buyer2 reputation too low''), ledger)"
proof -
  have low: "f64_lt (Score (fst (fst (ReadReputationScore ledger ''buyer2'')))) (Fin 40)"
    by (simp add: ledger_reads)
  have ok: "fst (CheckReputationPenalty ledger ''buyer1'') = (False, None)"
    by (simp add: CheckReputationPenalty_def ledger_reads ReputationPenaltyThreshold_def)
  show ?thesis
    using low ok
      CreateEnergyAsset_check_order
        [of ledger "''buyer2''" "''energy1''" "''buyer2''" "Fin 1" "Fin 1" "''t''" "Fin 0" "Fin 0"]
      CreateEnergyAsset_check_order
        [of ledger "''buyer1''" "''energy1''" "''buyer2''" "Fin 1" "Fin 1" "''t''" "Fin 0" "Fin 0"]
    by simp
qed

section \<open>AssetRegistry: uniqueness of tokenID\<close>

text \<open>
  Claim C3. When the buyer and the seller both have a reputation score of at least 40
  (their lookups succeed with such a score) and the key \<open>tokenID\<close> already holds a
  record, \<open>CreateEnergyAsset\<close> fails with "asset ... already exists", and the context is
  as before: the record under \<open>tokenID\<close> is the old one.
\<close>

theorem CreateEnergyAsset_already_exists:
  assumes "fst (ReadReputationScore ctx buyer) = (rb, None)" and "f64_le (Fin 40) (Score rb)"
    and "fst (ReadReputationScore ctx seller) = (rs, None)" and "f64_le (Fin 40) (Score rs)"
    and "state ctx tokenID = Some old"
  shows "CreateEnergyAsset ctx tokenID buyer seller amount price ts bdep sdep =
           (Some (Errorf (''asset '' @ tokenID @ '' already exists'')), ctx)
         \<and> state (snd (CreateEnergyAsset ctx tokenID buyer seller amount price ts bdep sdep)) tokenID
             = Some old"
proof -
  have "fst (EnergyAssetExists ctx tokenID) = (True, None)
        \<or> snd (fst (EnergyAssetExists ctx tokenID)) \<noteq> None"
    using assms(5) by (simp add: EnergyAssetExists_def GetState_def split: option.split)
  moreover have "snd (EnergyAssetExists ctx tokenID) = ctx"
    by (rule EnergyAssetExists_ctx)
  ultimately show ?thesis
    using assms
    by (auto simp: CreateEnergyAsset_def CheckReputationPenalty_eq f64_le_def split: prod.split)
qed

theorem CreateEnergyAsset_already_exists_witness:
  "fst (ReadReputationScore ledger ''buyer1'') = (\<lparr>ParticipantAddress = ''buyer1'', Score = Fin 80\<rparr>, None)
   \<and> f64_le (Fin 40) (Fin 80)
   \<and> fst (ReadReputationScore ledger ''seller2'') = (\<lparr>ParticipantAddress = ''seller2'', Score = Fin 40\<rparr>, None)
   \<and> f64_le (Fin 40) (Fin 40)
   \<and> state ledger ''energy1'' = Some energy1_json
   \<and> CreateEnergyAsset ledger ''energy1'' ''buyer1'' ''seller2'' (Fin 5) (Fin 2) ''t'' (Fin 1) (Fin 1) =
        (Some (Errorf ''asset energy1 already exists''), ledger)
   \<and> state (snd (CreateEnergyAsset ledger ''energy1'' ''buyer1'' ''seller2'' (Fin 5) (Fin 2) ''t'' (Fin 1) (Fin 1)))
        ''energy1'' = Some energy1_json"
proof -
  have b: "fst (ReadReputationScore ledger ''buyer1'') = (\<lparr>ParticipantAddress = ''buyer1'', Score = Fin 80\<rparr>, None)"
    by (simp add: ledger_reads)
  have s: "fst (ReadReputationScore ledger ''seller2'') = (\<lparr>ParticipantAddress = ''seller2'', Score = Fin 40\<rparr>, None)"
    by (simp add: ledger_reads)
  have b40: "f64_le (Fin 40) (Score \<lparr>ParticipantAddress = ''buyer1'', Score = Fin 80\<rparr>)"
    by (simp add: f64_le_def)
  have s40: "f64_le (Fin 40) (Score \<lparr>ParticipantAddress = ''seller2'', Score = Fin 40\<rparr>)"
    by (simp add: f64_le_def)
  have e: "state ledger ''energy1'' = Some energy1_json"
    by (simp add: ledger_def)
  from CreateEnergyAsset_already_exists
         [OF b b40 s s40 e, of "Fin 5" "Fin 2" "''t''" "Fin 1" "Fin 1"] b s b40 s40 e
  show ?thesis by simp
qed

section \<open>ReputationLedger: the default score\<close>

text \<open>
  Claim C4. For a participant address under which no record is stored,
  \<open>ReadReputationScore\<close> returns the record with that address and the score 50, and no
  error; the context is unchanged.
\<close>

theorem ReadReputationScore_absent:
  assumes "state ctx p = None"
  shows "ReadReputationScore ctx p = ((\<lparr>ParticipantAddress = p, Score = Fin 50\<rparr>, None), ctx)"
  using assms by (simp add: ReadReputationScore_def GetState_def split: option.split)

theorem ReadReputationScore_absent_witness:
  "state ledger ''newcomer'' = None \<and>
   ReadReputationScore ledger ''newcomer'' =
     ((\<lparr>ParticipantAddress = ''newcomer'', Score = Fin 50\<rparr>, None), ledger)"
proof -
  have h: "state ledger ''newcomer'' = None"
    by (simp add: ledger_def)
  from h ReadReputationScore_absent [OF h] show ?thesis by simp
qed


section \<open>Facts about the writing methods\<close>

lemma PutState_ok:
  "PutState ctx key val = (None, ctx') \<Longrightarrow>
   put_fault ctx key = None \<and>
   ctx' = ctx\<lparr>put_log := put_log ctx @ [(key, val)], state := (state ctx)(key := val)\<rparr>"
  by (auto simp: PutState_def Let_def split: option.splits)

lemma PutState_failed:
  "PutState ctx key val = (Some e, ctx') \<Longrightarrow>
   (\<exists>msg. put_fault ctx key = Some msg \<and> e = StubError msg) \<and>
   ctx' = ctx\<lparr>put_log := put_log ctx @ [(key, val)]\<rparr>"
  by (auto simp: PutState_def Let_def split: option.splits)

lemma Marshal_EnergyAsset_cases:
  "(\<exists>b. Marshal_EnergyAsset a = (Some b, None))
   \<or> Marshal_EnergyAsset a = (None, Some UnsupportedValueError)"
  by (simp add: Marshal_EnergyAsset_def)

text \<open>The body of \<open>CreateEnergyAsset\<close>, with the context of the three checks resolved.\<close>

lemma CreateEnergyAsset_unfold:
  "CreateEnergyAsset ctx tokenID buyer seller amount price ts bdep sdep =
   (if fst (CheckReputationPenalty ctx buyer) \<noteq> (False, None) then
      (Some (Errorf (''buyer '' @ buyer @ '' reputation too low'')), ctx)
    else if fst (CheckReputationPenalty ctx seller) \<noteq> (False, None) then
      (Some (Errorf (''seller '' @ seller @ '' reputation too low'')), ctx)
    else if fst (EnergyAssetExists ctx tokenID) \<noteq> (False, None) then
      (Some (Errorf (''asset '' @ tokenID @ '' already exists'')), ctx)
    else
      (case Marshal_EnergyAsset \<lparr>TokenID = tokenID, BuyerAddress = buyer,
              SellerAddress = seller, EnergyAmount = amount,
              TransactionPrice = price, Timestamp = ts,
              BuyerDeposit = bdep, SellerDeposit = sdep,
              TransactionState = ''CREATED'', BuyerSignature = [], SellerSignature = []\<rparr> of
         (assetJSON, Some e) \<Rightarrow> (Some e, ctx)
       | (assetJSON, None) \<Rightarrow> PutState ctx tokenID assetJSON))"
proof -
  obtain x ex where E: "EnergyAssetExists ctx tokenID = ((x, ex), ctx)"
    using EnergyAssetExists_ctx [of ctx tokenID] by (cases "EnergyAssetExists ctx tokenID") auto
  show ?thesis
    by (auto simp: CreateEnergyAsset_def CheckReputationPenalty_eq E Let_def)
qed

lemma ledger_checks:
  "CheckReputationPenalty ledger ''buyer1'' = ((False, None), ledger)"
  "CheckReputationPenalty ledger ''seller1'' = ((False, None), ledger)"
  "CheckReputationPenalty ledger ''buyer2'' = ((True, None), ledger)"
  "CheckReputationPenalty ledger ''seller2'' = ((False, None), ledger)"
  by (simp_all add: CheckReputationPenalty_eq ledger_reads)

lemma ledger_exists:
  "EnergyAssetExists ledger ''energy1'' = ((True, None), ledger)"
  "EnergyAssetExists ledger ''energy2'' = ((False, None), ledger)"
  by (simp_all add: EnergyAssetExists_def GetState_def ledger_def)

text \<open>
  The scenario of the specification: buyer1 (80) and seller1 (85) create the unused
  \<open>energy2\<close>. The same call with NaN as the amount of energy fails in \<open>json.Marshal\<close>.
\<close>

lemma Create_energy2:
  "CreateEnergyAsset ledger ''energy2'' ''buyer1'' ''seller1'' (Fin 100) (Fin 0.25)
     ''2025-05-04T10:00:00Z'' (Fin 10) (Fin 10) = (None, ledger_energy2)"
  by (simp add: CreateEnergyAsset_unfold ledger_checks ledger_exists Marshal_EnergyAsset_def
      omitempty_def PutState_def ledger_energy2_def energy2_json_def coerce_literals)
     (simp add: ledger_def)

lemma Create_energy2_NaN:
  "CreateEnergyAsset ledger ''energy2'' ''buyer1'' ''seller1'' NaN (Fin 0.25)
     ''2025-05-04T10:00:00Z'' (Fin 10) (Fin 10) = (Some UnsupportedValueError, ledger)"
  by (simp add: CreateEnergyAsset_unfold ledger_checks ledger_exists Marshal_EnergyAsset_def)

section \<open>AssetRegistry: CreateEnergyAsset writes once or not at all\<close>

text \<open>
  Claim C5. Whatever \<open>CreateEnergyAsset\<close> returns:
  \<^item> on success the encoding of the new asset has been put under \<open>tokenID\<close>, this is
    the only change of the stored state and the only call of \<open>PutState\<close>;
  \<^item> on every failure the stored state is unchanged;
  \<^item> when the failure is a reputation error, the already-exists error or the encoding
    failure of \<open>json.Marshal\<close>, the whole context is unchanged: \<open>PutState\<close> was not called;
  \<^item> \<open>PutState\<close> is called at most once;
  \<^item> the result is success, one of these four errors, or the host's error of the one
    \<open>PutState\<close>.
\<close>

theorem CreateEnergyAsset_atomic:
  assumes "CreateEnergyAsset ctx tokenID buyer seller amount price ts bdep sdep = (err, ctx')"
  shows "(err = None \<longrightarrow>
            (\<exists>assetJSON.
               Marshal_EnergyAsset \<lparr>TokenID = tokenID, BuyerAddress = buyer,
                  SellerAddress = seller, EnergyAmount = amount,
                  TransactionPrice = price, Timestamp = ts,
                  BuyerDeposit = bdep, SellerDeposit = sdep,
                  TransactionState = ''CREATED'', BuyerSignature = [], SellerSignature = []\<rparr>
                 = (Some assetJSON, None) \<and>
               state ctx' = (state ctx)(tokenID \<mapsto> assetJSON) \<and>
               put_log ctx' = put_log ctx @ [(tokenID, Some assetJSON)]))
       \<and> (err \<noteq> None \<longrightarrow> state ctx' = state ctx)
       \<and> ((\<exists>msg. err = Some (Errorf msg)) \<or> err = Some UnsupportedValueError \<longrightarrow> ctx' = ctx)
       \<and> length (put_log ctx') \<le> length (put_log ctx) + 1
       \<and> (err = None
          \<or> err = Some (Errorf (''buyer '' @ buyer @ '' reputation too low''))
          \<or> err = Some (Errorf (''seller '' @ seller @ '' reputation too low''))
          \<or> err = Some (Errorf (''asset '' @ tokenID @ '' already exists''))
          \<or> err = Some UnsupportedValueError
          \<or> (\<exists>msg. err = Some (StubError msg)))"
proof -
  let ?asset = "\<lparr>TokenID = tokenID, BuyerAddress = buyer,
                  SellerAddress = seller, EnergyAmount = amount,
                  TransactionPrice = price, Timestamp = ts,
                  BuyerDeposit = bdep, SellerDeposit = sdep,
                  TransactionState = ''CREATED'', BuyerSignature = [], SellerSignature = []\<rparr>"
  consider (rejected) "ctx' = ctx"
      "err = Some (Errorf (''buyer '' @ buyer @ '' reputation too low''))
       \<or> err = Some (Errorf (''seller '' @ seller @ '' reputation too low''))
       \<or> err = Some (Errorf (''asset '' @ tokenID @ '' already exists''))
       \<or> err = Some UnsupportedValueError"
    | (put) assetJSON where "Marshal_EnergyAsset ?asset = (Some assetJSON, None)"
        "PutState ctx tokenID (Some assetJSON) = (err, ctx')"
    using assms Marshal_EnergyAsset_cases [of ?asset]
    unfolding CreateEnergyAsset_unfold by (auto split: if_splits)
  then show ?thesis
  proof cases
    case rejected
    then show ?thesis by auto
  next
    case put
    show ?thesis
    proof (cases err)
      case None
      with put PutState_ok [of ctx tokenID "Some assetJSON" ctx'] show ?thesis by auto
    next
      case (Some e)
      with put PutState_failed [of ctx tokenID "Some assetJSON" e ctx'] show ?thesis by auto
    qed
  qed
qed

text \<open>
  On the sample ledger: the successful creation of \<open>energy2\<close> puts its encoding under
  \<open>energy2\<close> and logs that one call; the creation that fails in \<open>json.Marshal\<close> returns the
  ledger as it was.
\<close>

theorem CreateEnergyAsset_atomic_witness:
  "CreateEnergyAsset ledger ''energy2'' ''buyer1'' ''seller1'' (Fin 100) (Fin 0.25)
     ''2025-05-04T10:00:00Z'' (Fin 10) (Fin 10) = (None, ledger_energy2)
   \<and> state ledger_energy2 = (state ledger)(''energy2'' \<mapsto> energy2_json)
   \<and> put_log ledger_energy2 = put_log ledger @ [(''energy2'', Some energy2_json)]
   \<and> CreateEnergyAsset ledger ''energy2'' ''buyer1'' ''seller1'' NaN (Fin 0.25)
     ''2025-05-04T10:00:00Z'' (Fin 10) (Fin 10) = (Some UnsupportedValueError, ledger)"
proof -
  note ok = CreateEnergyAsset_atomic [OF Create_energy2]
  note bad = CreateEnergyAsset_atomic [OF Create_energy2_NaN]
  have "Marshal_EnergyAsset \<lparr>TokenID = ''energy2'', BuyerAddress = ''buyer1'',
                  SellerAddress = ''seller1'', EnergyAmount = Fin 100,
                  TransactionPrice = Fin 0.25, Timestamp = ''2025-05-04T10:00:00Z'',
                  BuyerDeposit = Fin 10, SellerDeposit = Fin 10,
                  TransactionState = ''CREATED'', BuyerSignature = [], SellerSignature = []\<rparr>
         = (Some energy2_json, None)"
    by (simp add: Marshal_EnergyAsset_def omitempty_def energy2_json_def coerce_literals)
  with ok bad Create_energy2 Create_energy2_NaN show ?thesis by simp
qed

section \<open>AssetRegistry: create, then read\<close>

text \<open>
  The creation with the one-byte timestamp 0xFF, which is not valid UTF-8, succeeds on the
  sample ledger.
\<close>

lemma Create_energy2_0xFF:
  "CreateEnergyAsset ledger ''energy2'' ''buyer1'' ''seller1'' (Fin 100) (Fin 0.25)
     [CHR 0xFF] (Fin 10) (Fin 10) = (None, ledger_energy2_0xFF)"
  by (simp add: CreateEnergyAsset_unfold ledger_checks ledger_exists Marshal_EnergyAsset_def
      omitempty_def PutState_def ledger_energy2_0xFF_def energy2_0xFF_json_def coerce_literals)
     (simp add: ledger_def)

lemma Read_energy2_0xFF:
  "map_option Timestamp (fst (fst (ReadEnergyAsset ledger_energy2_0xFF ''energy2'')))
     = Some [CHR 0xEF, CHR 0xBF, CHR 0xBD]"
  by (simp add: ReadEnergyAsset_def GetState_def ledger_energy2_0xFF_def ledger_def
      energy2_0xFF_json_def member_EnergyAsset_def fold_name_tags assign_def
      zero_EnergyAsset_def)

text \<open>
  Claim C6 says that the record read after a successful creation has the arguments of
  the creation in its fields. It has not when a string argument is not valid UTF-8: the
  creation with the timestamp 0xFF succeeds, and the record read back has the three
  bytes of U+FFFD as its timestamp.
\<close>

theorem CreateEnergyAsset_ReadEnergyAsset_roundtrip_counterexample:
  "fst (CreateEnergyAsset ledger ''energy2'' ''buyer1'' ''seller1'' (Fin 100) (Fin 0.25)
          [CHR 0xFF] (Fin 10) (Fin 10)) = None
   \<and> map_option Timestamp
         (fst (fst (ReadEnergyAsset
            (snd (CreateEnergyAsset ledger ''energy2'' ''buyer1'' ''seller1'' (Fin 100) (Fin 0.25)
                    [CHR 0xFF] (Fin 10) (Fin 10))) ''energy2'')))
       = Some [CHR 0xEF, CHR 0xBF, CHR 0xBD]
   \<and> [CHR 0xEF, CHR 0xBF, CHR 0xBD] \<noteq> [CHR 0xFF]"
  using Create_energy2_0xFF Read_energy2_0xFF by simp

text \<open>
  Claim C6, amended. After a successful \<open>CreateEnergyAsset\<close>, \<open>ReadEnergyAsset\<close> of the
  same \<open>tokenID\<close> on the resulting context succeeds and returns the record whose numeric
  fields are the arguments of the creation, whose string fields are the arguments
  coerced to UTF-8 (every byte that starts no well-formed encoding replaced by U+FFFD),
  whose \<open>TransactionState\<close> is "CREATED" and whose two signatures are empty. When the
  four string arguments are valid UTF-8, all eight fields are the arguments of the
  creation. The same record is read on every later context that holds the same bytes
  under \<open>tokenID\<close> and whose read of that key does not fail.
\<close>

theorem CreateEnergyAsset_ReadEnergyAsset_roundtrip:
  assumes "CreateEnergyAsset ctx tokenID buyer seller amount price ts bdep sdep = (None, ctx')"
  shows "ReadEnergyAsset ctx' tokenID =
           ((Some \<lparr>TokenID = coerce_utf8 tokenID, BuyerAddress = coerce_utf8 buyer,
                  SellerAddress = coerce_utf8 seller, EnergyAmount = amount,
                  TransactionPrice = price, Timestamp = coerce_utf8 ts,
                  BuyerDeposit = bdep, SellerDeposit = sdep,
                  TransactionState = ''CREATED'', BuyerSignature = [], SellerSignature = []\<rparr>,
             None), ctx')
         \<and> (valid_utf8 tokenID \<and> valid_utf8 buyer \<and> valid_utf8 seller \<and> valid_utf8 ts \<longrightarrow>
              ReadEnergyAsset ctx' tokenID =
                ((Some \<lparr>TokenID = tokenID, BuyerAddress = buyer,
                       SellerAddress = seller, EnergyAmount = amount,
                       TransactionPrice = price, Timestamp = ts,
                       BuyerDeposit = bdep, SellerDeposit = sdep,
                       TransactionState = ''CREATED'', BuyerSignature = [],
                       SellerSignature = []\<rparr>,
                  None), ctx'))
         \<and> (\<forall>later. state later tokenID = state ctx' tokenID \<and> get_fault later tokenID = None \<longrightarrow>
              ReadEnergyAsset later tokenID =
                ((Some \<lparr>TokenID = coerce_utf8 tokenID, BuyerAddress = coerce_utf8 buyer,
                       SellerAddress = coerce_utf8 seller, EnergyAmount = amount,
                       TransactionPrice = price, Timestamp = coerce_utf8 ts,
                       BuyerDeposit = bdep, SellerDeposit = sdep,
                       TransactionState = ''CREATED'', BuyerSignature = [],
                       SellerSignature = []\<rparr>,
                  None), later))"
proof -
  let ?asset = "\<lparr>TokenID = tokenID, BuyerAddress = buyer,
                  SellerAddress = seller, EnergyAmount = amount,
                  TransactionPrice = price, Timestamp = ts,
                  BuyerDeposit = bdep, SellerDeposit = sdep,
                  TransactionState = ''CREATED'', BuyerSignature = [], SellerSignature = []\<rparr>"
  let ?read = "\<lparr>TokenID = coerce_utf8 tokenID, BuyerAddress = coerce_utf8 buyer,
                  SellerAddress = coerce_utf8 seller, EnergyAmount = amount,
                  TransactionPrice = price, Timestamp = coerce_utf8 ts,
                  BuyerDeposit = bdep, SellerDeposit = sdep,
                  TransactionState = ''CREATED'', BuyerSignature = [], SellerSignature = []\<rparr>"
  from assms have ex: "fst (EnergyAssetExists ctx tokenID) = (False, None)"
    unfolding CreateEnergyAsset_unfold by (auto split: if_splits)
  then have readable: "get_fault ctx tokenID = None"
    by (auto simp: EnergyAssetExists_def GetState_def split: option.splits)
  from assms obtain assetJSON where m: "Marshal_EnergyAsset ?asset = (Some assetJSON, None)"
      and p: "PutState ctx tokenID (Some assetJSON) = (None, ctx')"
    using Marshal_EnergyAsset_cases [of ?asset]
    unfolding CreateEnergyAsset_unfold by (auto split: if_splits)
  from p have ctx': "ctx' = ctx\<lparr>put_log := put_log ctx @ [(tokenID, Some assetJSON)],
      state := (state ctx)(tokenID \<mapsto> assetJSON)\<rparr>"
    by (auto dest: PutState_ok)
  have stored: "state ctx' tokenID = Some assetJSON" and readable': "get_fault ctx' tokenID = None"
    by (simp_all add: ctx' readable)
  have decoded: "Unmarshal_EnergyAsset assetJSON = (?read, None)"
    using Unmarshal_Marshal_EnergyAsset [OF m] by (simp add: coerce_literals)
  have later: "ReadEnergyAsset later tokenID = ((Some ?read, None), later)"
    if "state later tokenID = state ctx' tokenID" "get_fault later tokenID = None" for later
    using that stored decoded by (simp add: ReadEnergyAsset_def GetState_def)
  have here: "ReadEnergyAsset ctx' tokenID = ((Some ?read, None), ctx')"
    using readable' by (intro later) simp_all
  have "?read = ?asset"
    if "valid_utf8 tokenID \<and> valid_utf8 buyer \<and> valid_utf8 seller \<and> valid_utf8 ts"
    using that by (simp add: valid_coerce)
  with here later show ?thesis by simp
qed

text \<open>
  On the sample ledger: the four strings of the creation of \<open>energy2\<close> are valid UTF-8,
  and the record read on the resulting ledger has the eight arguments.
\<close>

theorem CreateEnergyAsset_ReadEnergyAsset_roundtrip_witness:
  "CreateEnergyAsset ledger ''energy2'' ''buyer1'' ''seller1'' (Fin 100) (Fin 0.25)
     ''2025-05-04T10:00:00Z'' (Fin 10) (Fin 10) = (None, ledger_energy2)
   \<and> valid_utf8 ''energy2'' \<and> valid_utf8 ''buyer1'' \<and> valid_utf8 ''seller1''
   \<and> valid_utf8 ''2025-05-04T10:00:00Z''
   \<and> get_fault ledger_energy2 ''energy2'' = None
   \<and> ReadEnergyAsset ledger_energy2 ''energy2'' =
           ((Some \<lparr>TokenID = ''energy2'', BuyerAddress = ''buyer1'',
                  SellerAddress = ''seller1'', EnergyAmount = Fin 100,
                  TransactionPrice = Fin 0.25, Timestamp = ''2025-05-04T10:00:00Z'',
                  BuyerDeposit = Fin 10, SellerDeposit = Fin 10,
                  TransactionState = ''CREATED'', BuyerSignature = [], SellerSignature = []\<rparr>,
             None), ledger_energy2)"
proof -
  have f: "get_fault ledger_energy2 ''energy2'' = None"
    by (simp add: ledger_energy2_def ledger_def)
  from CreateEnergyAsset_ReadEnergyAsset_roundtrip [OF Create_energy2] valid_literals
  have "ReadEnergyAsset ledger_energy2 ''energy2'' =
           ((Some \<lparr>TokenID = ''energy2'', BuyerAddress = ''buyer1'',
                  SellerAddress = ''seller1'', EnergyAmount = Fin 100,
                  TransactionPrice = Fin 0.25, Timestamp = ''2025-05-04T10:00:00Z'',
                  BuyerDeposit = Fin 10, SellerDeposit = Fin 10,
                  TransactionState = ''CREATED'', BuyerSignature = [], SellerSignature = []\<rparr>,
             None), ledger_energy2)"
    by blast
  with Create_energy2 valid_literals f show ?thesis by blast
qed

section \<open>ReputationLedger: the penalty threshold\<close>

text \<open>
  Claim C7. \<open>CheckReputationPenalty\<close> leaves the context as it was, and its answer is
  true exactly when the participant's score, as \<open>ReadReputationScore\<close> reports it, is
  strictly below 40: a participant without a stored record (score 50) is not penalized; a
  participant whose stored record is read is penalized exactly when the score decoded
  from it is below 40; a score of exactly 40 is not penalized.
\<close>

theorem CheckReputationPenalty_threshold:
  "snd (CheckReputationPenalty ctx p) = ctx
   \<and> fst (fst (CheckReputationPenalty ctx p))
       = f64_lt (Score (fst (fst (ReadReputationScore ctx p)))) (Fin 40)
   \<and> (state ctx p = None \<longrightarrow> \<not> fst (fst (CheckReputationPenalty ctx p)))
   \<and> (get_fault ctx p = None \<and> state ctx p = Some b \<longrightarrow>
        fst (fst (CheckReputationPenalty ctx p))
          = f64_lt (Score (fst (Unmarshal_Reputation b))) (Fin 40))
   \<and> (Score (fst (fst (ReadReputationScore ctx p))) = Fin 40 \<longrightarrow>
        \<not> fst (fst (CheckReputationPenalty ctx p)))"
  by (auto simp: CheckReputationPenalty_eq ReadReputationScore_def GetState_def
      split: option.splits)

text \<open>
  On the sample ledger: the unknown newcomer is not penalized, buyer2 (39.9) is, seller2
  (exactly 40) is not, and the ledger is unchanged.
\<close>

theorem CheckReputationPenalty_threshold_witness:
  "state ledger ''newcomer'' = None \<and> \<not> fst (fst (CheckReputationPenalty ledger ''newcomer''))
   \<and> get_fault ledger ''buyer2'' = None
   \<and> state ledger ''buyer2'' = Some (reputation_json ''buyer2'' 39.9)
   \<and> fst (fst (CheckReputationPenalty ledger ''buyer2''))
   \<and> Score (fst (fst (ReadReputationScore ledger ''seller2''))) = Fin 40
   \<and> \<not> fst (fst (CheckReputationPenalty ledger ''seller2''))
   \<and> snd (CheckReputationPenalty ledger ''buyer2'') = ledger"
proof -
  have a: "state ledger ''newcomer'' = None"
    by (simp add: ledger_def)
  have f: "get_fault ledger ''buyer2'' = None"
    by (simp add: ledger_def)
  have s: "state ledger ''buyer2'' = Some (reputation_json ''buyer2'' 39.9)"
    by (simp add: ledger_def)
  have e: "Score (fst (fst (ReadReputationScore ledger ''seller2''))) = Fin 40"
    by (simp add: ledger_reads)
  from a CheckReputationPenalty_threshold [of ledger "''newcomer''"]
  have 1: "\<not> fst (fst (CheckReputationPenalty ledger ''newcomer''))"
    by blast
  from f s CheckReputationPenalty_threshold [of ledger "''buyer2''" "reputation_json ''buyer2'' 39.9"]
  have "fst (fst (CheckReputationPenalty ledger ''buyer2''))
          = f64_lt (Score (fst (Unmarshal_Reputation (reputation_json ''buyer2'' 39.9)))) (Fin 40)"
    by blast
  then have 2: "fst (fst (CheckReputationPenalty ledger ''buyer2''))"
    by (simp add: Unmarshal_reputation_json)
  from e CheckReputationPenalty_threshold [of ledger "''seller2''"]
  have 3: "\<not> fst (fst (CheckReputationPenalty ledger ''seller2''))"
    by blast
  from CheckReputationPenalty_threshold [of ledger "''buyer2''"]
  have 4: "snd (CheckReputationPenalty ledger ''buyer2'') = ledger"
    by blast
  from a f s e 1 2 3 4 show ?thesis by blast
qed

section \<open>AssetRegistry: the failures of ReadEnergyAsset\<close>

text \<open>
  Claim C8 says that \<open>ReadEnergyAsset\<close> reports NotFound exactly when no record is stored,
  and never for a failure of the store. It does report a failed read as NotFound: with
  every read failing, the stored asset \<open>energy1\<close> is reported as "does not exist".
\<close>

theorem ReadEnergyAsset_failure_kinds_counterexample:
  "state ledger_offline ''energy1'' = Some energy1_json
   \<and> get_fault ledger_offline ''energy1'' = Some ''unreachable''
   \<and> fst (ReadEnergyAsset ledger_offline ''energy1'')
       = (None, Some (Errorf ''asset energy1 does not exist''))"
  by (simp add: ReadEnergyAsset_def GetState_def ledger_offline_def ledger_def)

text \<open>
  Claim C8, amended. \<open>ReadEnergyAsset\<close> leaves the context as it was. It fails with
  "asset ... does not exist" exactly when the key holds no record or the read of the
  store fails. When the stored bytes are read, it returns the record decoded from them
  with the decoder's error, if any; that error is one of \<open>encoding/json\<close>, a kind
  distinct from the error of the absent asset.
\<close>

theorem ReadEnergyAsset_failure_kinds:
  "snd (ReadEnergyAsset ctx tokenID) = ctx
   \<and> (snd (fst (ReadEnergyAsset ctx tokenID))
         = Some (Errorf (''asset '' @ tokenID @ '' does not exist'')))
       = (state ctx tokenID = None \<or> get_fault ctx tokenID \<noteq> None)
   \<and> (get_fault ctx tokenID = None \<and> state ctx tokenID = Some b \<longrightarrow>
        fst (ReadEnergyAsset ctx tokenID)
          = (Some (fst (Unmarshal_EnergyAsset b)), snd (Unmarshal_EnergyAsset b))
        \<and> (\<forall>e. snd (Unmarshal_EnergyAsset b) = Some e \<longrightarrow> is_json_error e))"
proof -
  have "False" if "Unmarshal_EnergyAsset b' = (a, Some (Errorf msg))" for b' a msg
    using Unmarshal_EnergyAsset_error [of b' "Errorf msg"] that by (simp add: is_json_error_def)
  then show ?thesis
    by (auto simp: ReadEnergyAsset_def GetState_def Unmarshal_EnergyAsset_error
        split: option.splits prod.splits)
qed

text \<open>
  On the sample ledger: the bytes under \<open>scrap\<close> are read and give a \<open>SyntaxError\<close>; the
  missing \<open>energy2\<close> gives "does not exist".
\<close>

theorem ReadEnergyAsset_failure_kinds_witness:
  "get_fault ledger ''scrap'' = None \<and> state ledger ''scrap'' = Some (NotJSON ''tokenID=energy9'')
   \<and> fst (ReadEnergyAsset ledger ''scrap'') = (Some zero_EnergyAsset, Some SyntaxError)
   \<and> is_json_error SyntaxError
   \<and> state ledger ''energy2'' = None
   \<and> snd (fst (ReadEnergyAsset ledger ''energy2'')) = Some (Errorf ''asset energy2 does not exist'')"
proof -
  have f: "get_fault ledger ''scrap'' = None"
    by (simp add: ledger_def)
  have s: "state ledger ''scrap'' = Some (NotJSON ''tokenID=energy9'')"
    by (simp add: ledger_def)
  have a: "state ledger ''energy2'' = None"
    by (simp add: ledger_def)
  from f s ReadEnergyAsset_failure_kinds [of ledger "''scrap''" "NotJSON ''tokenID=energy9''"]
  have 1: "fst (ReadEnergyAsset ledger ''scrap'') = (Some zero_EnergyAsset, Some SyntaxError)"
    and 2: "is_json_error SyntaxError"
    by simp_all
  from a ReadEnergyAsset_failure_kinds [of ledger "''energy2''"]
  have 3: "snd (fst (ReadEnergyAsset ledger ''energy2''))
             = Some (Errorf ''asset energy2 does not exist'')"
    by simp
  from f s a 1 2 3 show ?thesis by blast
qed

section \<open>ReputationLedger: a failed read of the store\<close>

text \<open>
  Claim C9 says that \<open>ReadReputationScore\<close> returns the store's error when the read
  fails. It does not: with every read failing, buyer1, whose stored score is 80, is
  reported with the default score 50 and no error.
\<close>

theorem ReadReputationScore_store_failure_counterexample:
  "fst (GetState ledger_offline ''buyer1'') = (None, Some (StubError ''unreachable''))
   \<and> state ledger_offline ''buyer1'' = Some (reputation_json ''buyer1'' 80)
   \<and> ReadReputationScore ledger_offline ''buyer1''
       = ((\<lparr>ParticipantAddress = ''buyer1'', Score = Fin 50\<rparr>, None), ledger_offline)"
  by (simp add: ReadReputationScore_def GetState_def ledger_offline_def ledger_def)

text \<open>
  Claim C9, amended. When the read of the store fails, \<open>GetState\<close> returns the host's
  error, and \<open>ReadReputationScore\<close> returns the record with the participant's address
  and the default score 50, and no error: a failed read is treated as the absent record.
\<close>

theorem ReadReputationScore_store_failure:
  assumes "get_fault ctx p = Some msg"
  shows "fst (GetState ctx p) = (None, Some (StubError msg))
         \<and> ReadReputationScore ctx p = ((\<lparr>ParticipantAddress = p, Score = Fin 50\<rparr>, None), ctx)"
  using assms by (simp add: ReadReputationScore_def GetState_def)

theorem ReadReputationScore_store_failure_witness:
  "get_fault ledger_offline ''buyer2'' = Some ''unreachable''
   \<and> fst (GetState ledger_offline ''buyer2'') = (None, Some (StubError ''unreachable''))
   \<and> ReadReputationScore ledger_offline ''buyer2''
       = ((\<lparr>ParticipantAddress = ''buyer2'', Score = Fin 50\<rparr>, None), ledger_offline)"
proof -
  have h: "get_fault ledger_offline ''buyer2'' = Some ''unreachable''"
    by (simp add: ledger_offline_def)
  from h ReadReputationScore_store_failure [OF h] show ?thesis by simp
qed

section \<open>AssetRegistry: an error of the existence check\<close>

text \<open>
  Claim C10. When the buyer and the seller pass their checks and the existence check
  \<open>EnergyAssetExists\<close> returns an error, \<open>CreateEnergyAsset\<close> fails with
  "asset ... already exists", not with that error, and the context is unchanged.
\<close>

theorem CreateEnergyAsset_exists_check_error:
  assumes "fst (CheckReputationPenalty ctx buyer) = (False, None)"
    and "fst (CheckReputationPenalty ctx seller) = (False, None)"
    and "snd (fst (EnergyAssetExists ctx tokenID)) = Some e"
  shows "CreateEnergyAsset ctx tokenID buyer seller amount price ts bdep sdep =
           (Some (Errorf (''asset '' @ tokenID @ '' already exists'')), ctx)"
  using assms
  by (cases "fst (EnergyAssetExists ctx tokenID)") (simp add: CreateEnergyAsset_unfold)

text \<open>
  On the sample ledger with every read failing: nothing is stored under \<open>energy2\<close>, the
  existence check returns the host's error, and the creation reports that \<open>energy2\<close>
  already exists.
\<close>

theorem CreateEnergyAsset_exists_check_error_witness:
  "fst (CheckReputationPenalty ledger_offline ''buyer1'') = (False, None)
   \<and> fst (CheckReputationPenalty ledger_offline ''seller1'') = (False, None)
   \<and> fst (EnergyAssetExists ledger_offline ''energy2'') = (False, Some (StubError ''unreachable''))
   \<and> state ledger_offline ''energy2'' = None
   \<and> CreateEnergyAsset ledger_offline ''energy2'' ''buyer1'' ''seller1'' (Fin 100) (Fin 0.25)
        ''2025-05-04T10:00:00Z'' (Fin 10) (Fin 10)
       = (Some (Errorf ''asset energy2 already exists''), ledger_offline)"
proof -
  have b: "fst (CheckReputationPenalty ledger_offline ''buyer1'') = (False, None)"
    by (simp add: CheckReputationPenalty_eq ReadReputationScore_def GetState_def ledger_offline_def)
  have s: "fst (CheckReputationPenalty ledger_offline ''seller1'') = (False, None)"
    by (simp add: CheckReputationPenalty_eq ReadReputationScore_def GetState_def ledger_offline_def)
  have x: "fst (EnergyAssetExists ledger_offline ''energy2'')
             = (False, Some (StubError ''unreachable''))"
    by (simp add: EnergyAssetExists_def GetState_def ledger_offline_def)
  then have x': "snd (fst (EnergyAssetExists ledger_offline ''energy2''))
                   = Some (StubError ''unreachable'')"
    by simp
  have a: "state ledger_offline ''energy2'' = None"
    by (simp add: ledger_offline_def ledger_def)
  from CreateEnergyAsset_exists_check_error
         [OF b s x', of "Fin 100" "Fin 0.25" "''2025-05-04T10:00:00Z''" "Fin 10" "Fin 10"] b s x a
  show ?thesis by simp
qed

section \<open>ReputationLedger: the clamp of UpdateReputationScore\<close>

text \<open>
  For every delta that is a number or an infinity, a successful \<open>UpdateReputationScore\<close>
  leaves under the participant's key the encoding of a record whose score lies in
  \<open>[0, 100]\<close>.
\<close>

lemma clamp_cases:
  assumes "is_finite a" "delta \<noteq> NaN"
  shows "\<exists>x. (if f64_lt (Fin 100) (f64_add a delta) then Fin 100
              else if f64_lt (f64_add a delta) (Fin 0) then Fin 0
              else f64_add a delta) = Fin x \<and> 0 \<le> x \<and> x \<le> 100"
  using assms by (cases a; cases delta) auto

lemma UpdateReputationScore_clamped:
  assumes "UpdateReputationScore ctx p delta = (None, ctx')" and "delta \<noteq> NaN"
  shows "\<exists>addr x. state ctx' p = Some (reputation_json addr x) \<and> 0 \<le> x \<and> x \<le> 100"
proof -
  obtain r where r: "ReadReputationScore ctx p = ((r, None), ctx)"
    using assms(1) ReadReputationScore_ctx [of ctx p]
    by (cases "ReadReputationScore ctx p") (auto simp: UpdateReputationScore_def split: option.splits)
  have "is_finite (Score r)"
    using ReadReputationScore_finite [of ctx p] r by simp
  from clamp_cases [OF this assms(2)] obtain x where
    x: "(if f64_lt (Fin 100) (f64_add (Score r) delta) then Fin 100
         else if f64_lt (f64_add (Score r) delta) (Fin 0) then Fin 0
         else f64_add (Score r) delta) = Fin x" "0 \<le> x" "x \<le> 100"
    by blast
  from assms(1)
  have "PutState ctx p (Some (reputation_json (coerce_utf8 (ParticipantAddress r)) x)) = (None, ctx')"
    by (simp add: UpdateReputationScore_def r Let_def x Marshal_Reputation_def reputation_json_def)
  then have "state ctx' p = Some (reputation_json (coerce_utf8 (ParticipantAddress r)) x)"
    by (auto dest: PutState_ok)
  with x show ?thesis by blast
qed

text \<open>
  Claim C2 fails when the delta is NaN. Both comparisons of the clamp are false for NaN,
  \<open>json.Marshal\<close> refuses the record, its error is not read, and \<open>PutState\<close> is called
  with nil bytes: the update returns no error, and the key of buyer1, which held the score
  80, holds no record afterwards.
\<close>

theorem UpdateReputationScore_NaN:
  "UpdateReputationScore ledger ''buyer1'' NaN
     = (None, ledger\<lparr>put_log := [(''buyer1'', None)], state := (state ledger)(''buyer1'' := None)\<rparr>)
   \<and> state ledger ''buyer1'' = Some (reputation_json ''buyer1'' 80)
   \<and> state (snd (UpdateReputationScore ledger ''buyer1'' NaN)) ''buyer1'' = None"
  by (simp add: UpdateReputationScore_def ledger_reads Marshal_Reputation_def PutState_def)
     (simp add: ledger_def)

end
